theory Spec2Isabelle
  imports Complex_Main
begin

section \<open>JavaScript numbers\<close>

text \<open>
  The calculation engines work on the TypeScript type \<open>number\<close>. A number is modelled
  as a real, or one of the three special values a division can produce: \<open>+Infinity\<close>,
  \<open>-Infinity\<close> and \<open>NaN\<close>. Arithmetic on finite values is exact: rounding error,
  overflow and the sign of zero are not part of the model (a zero divisor is read as
  \<open>+0\<close>). Comparisons with \<open>NaN\<close> are false, \<open>Math.max\<close> and \<open>Math.min\<close> return
  \<open>NaN\<close> as soon as one argument is \<open>NaN\<close>.
\<close>

datatype num = Fin real | PInf | NInf | NaN


text \<open>The sign of a number that is not \<open>NaN\<close>: \<open>-1\<close>, \<open>0\<close> or \<open>1\<close>.\<close>

fun num_sign :: "num \<Rightarrow> int" where
  "num_sign (Fin x) = (if x < 0 then - 1 else if x = 0 then 0 else 1)"
| "num_sign PInf = 1"
| "num_sign NInf = - 1"
| "num_sign NaN = 0"

definition signed_inf :: "int \<Rightarrow> num" where
  "signed_inf s = (if s = 0 then NaN else if 0 < s then PInf else NInf)"

fun jneg :: "num \<Rightarrow> num" where
  "jneg (Fin x) = Fin (- x)"
| "jneg PInf = NInf"
| "jneg NInf = PInf"
| "jneg NaN = NaN"

fun jadd :: "num \<Rightarrow> num \<Rightarrow> num" where
  "jadd (Fin a) (Fin b) = Fin (a + b)"
| "jadd NaN y = NaN"
| "jadd x NaN = NaN"
| "jadd PInf NInf = NaN"
| "jadd NInf PInf = NaN"
| "jadd PInf y = PInf"
| "jadd NInf y = NInf"
| "jadd x PInf = PInf"
| "jadd x NInf = NInf"

definition jsub :: "num \<Rightarrow> num \<Rightarrow> num" where
  "jsub x y = jadd x (jneg y)"

fun jmul :: "num \<Rightarrow> num \<Rightarrow> num" where
  "jmul (Fin a) (Fin b) = Fin (a * b)"
| "jmul NaN y = NaN"
| "jmul x NaN = NaN"
| "jmul x y = signed_inf (num_sign x * num_sign y)"

fun jdiv :: "num \<Rightarrow> num \<Rightarrow> num" where
  "jdiv (Fin a) (Fin b) = (if b \<noteq> 0 then Fin (a / b) else signed_inf (num_sign (Fin a)))"
| "jdiv NaN y = NaN"
| "jdiv x NaN = NaN"
| "jdiv (Fin a) y = Fin 0"
| "jdiv x (Fin b) = signed_inf (num_sign x * (if b < 0 then - 1 else 1))"
| "jdiv x y = NaN"

text \<open>The comparisons \<open><=\<close> and \<open><\<close>; \<open>>=\<close> and \<open>>\<close> are the same with the arguments swapped.\<close>

fun jle :: "num \<Rightarrow> num \<Rightarrow> bool" where
  "jle (Fin a) (Fin b) = (a \<le> b)"
| "jle NaN y = False"
| "jle x NaN = False"
| "jle NInf y = True"
| "jle x PInf = True"
| "jle x y = False"

fun jlt :: "num \<Rightarrow> num \<Rightarrow> bool" where
  "jlt (Fin a) (Fin b) = (a < b)"
| "jlt NaN y = False"
| "jlt x NaN = False"
| "jlt PInf y = False"
| "jlt x NInf = False"
| "jlt x y = True"

definition jge :: "num \<Rightarrow> num \<Rightarrow> bool" where
  "jge x y = jle y x"

definition jgt :: "num \<Rightarrow> num \<Rightarrow> bool" where
  "jgt x y = jlt y x"

text \<open>Strict equality \<open>===\<close> on numbers: \<open>NaN\<close> is not equal to itself.\<close>

definition jeq :: "num \<Rightarrow> num \<Rightarrow> bool" where
  "jeq x y = (x \<noteq> NaN \<and> y \<noteq> NaN \<and> x = y)"

definition jmax :: "num \<Rightarrow> num \<Rightarrow> num" where
  "jmax x y = (if x = NaN \<or> y = NaN then NaN else if jle x y then y else x)"

definition jmin :: "num \<Rightarrow> num \<Rightarrow> num" where
  "jmin x y = (if x = NaN \<or> y = NaN then NaN else if jle x y then x else y)"

text \<open>\<open>Math.max(...xs)\<close> and \<open>Math.min(...xs)\<close>: \<open>-Infinity\<close> and \<open>+Infinity\<close> on no argument.\<close>

definition jmax_list :: "num list \<Rightarrow> num" where
  "jmax_list xs = foldl jmax NInf xs"

definition jmin_list :: "num list \<Rightarrow> num" where
  "jmin_list xs = foldl jmin PInf xs"

fun jabs :: "num \<Rightarrow> num" where
  "jabs (Fin x) = Fin \<bar>x\<bar>"
| "jabs PInf = PInf"
| "jabs NInf = PInf"
| "jabs NaN = NaN"

text \<open>\<open>Math.round\<close> rounds to the nearest integer, a half towards \<open>+Infinity\<close>.\<close>

fun jround :: "num \<Rightarrow> num" where
  "jround (Fin x) = Fin (of_int \<lfloor>x + 1 / 2\<rfloor>)"
| "jround x = x"

fun jcos :: "num \<Rightarrow> num" where
  "jcos (Fin x) = Fin (cos x)"
| "jcos x = NaN"

text \<open>\<open>const round2 = (value) => Math.round(value * 100) / 100\<close>, in both modules.\<close>

definition round2 :: "num \<Rightarrow> num" where
  "round2 v = jdiv (jround (jmul v (Fin 100))) (Fin 100)"


section \<open>Rigging engine\<close>

subsection \<open>Types and constants\<close>

datatype HitchType = vertical | choker | basket

record RiggingInputs =
  hitchType :: HitchType
  weight :: num
  legs :: num
  angle :: num
  cogOffset :: num
  spacing :: num
  slingWLL :: num

record LoadDistribution =
  legLoads :: "num list"
  maxTension :: num
  minTension :: num
  isBalanced :: bool
  imbalanceRatio :: num

record AngleFactorResult =
  angleFactor :: num
  legAngle :: num
  efficiency :: num

text \<open>
  The warnings and recommendations are strings built from templates. A message is
  modelled by its template and the number it interpolates; the formatting of the number
  (\<open>toFixed\<close>) is not modelled.
\<close>

datatype message =
    InsufficientCapacity num
  | LowSafetyMargin
  | AngleTooSmall num
  | AngleTooLarge num
  | TooManyLegs num
  | WeightNotPositive
  | WLLNotPositive
  | WideAngle
  | CogOffsetExceedsHalfSpacing
  | UseMinimumWLL num
  | ChokerReducesCapacity
  | BasketDoublesCapacity

text \<open>
  Several result types of the source share field names (\<open>warnings\<close>, \<open>minRequiredWLL\<close>,
  \<open>angleFactor\<close>, \<open>total\<close>, \<open>cpp1\<close>, ...). The records keep the names, and a field
  is written with the name of its record where two of them meet.
\<close>

record SafetyAnalysis =
  isWLLAdequate :: bool
  safetyMargin :: num
  minRequiredWLL :: num
  recommendedWLL :: num
  warnings :: "message list"
  recommendations :: "message list"

record GeometryValidation =
  isValid :: bool
  warnings :: "message list"

record RiggingResults =
  angleFactor :: AngleFactorResult
  loadDistribution :: LoadDistribution
  tensionPerLeg :: num
  forcePerLeg :: num
  safety :: SafetyAnalysis
  maxTensionKN :: num
  minRequiredWLL :: num
  safetyCheck :: bool

text \<open>\<open>RIGGING_CONSTANTS\<close>\<close>

definition GRAVITY :: num where "GRAVITY = Fin (980665 / 100000)"
definition DESIGN_FACTOR :: num where "DESIGN_FACTOR = Fin (125 / 100)"
definition MINIMUM_SAFETY_MARGIN :: num where "MINIMUM_SAFETY_MARGIN = Fin 25"
definition MIN_ANGLE :: num where "MIN_ANGLE = Fin 10"
definition MAX_ANGLE :: num where "MAX_ANGLE = Fin 150"
definition MAX_LEGS :: num where "MAX_LEGS = Fin 4"

fun HITCH_FACTORS :: "HitchType \<Rightarrow> num" where
  "HITCH_FACTORS vertical = Fin 1"
| "HITCH_FACTORS choker = Fin (75 / 100)"
| "HITCH_FACTORS basket = Fin 2"

text \<open>\<open>DEFAULT_RIGGING_INPUTS\<close>\<close>

definition DEFAULT_RIGGING_INPUTS :: RiggingInputs where
  "DEFAULT_RIGGING_INPUTS =
     \<lparr> hitchType = vertical, weight = Fin 5000, legs = Fin 2, angle = Fin 60,
       cogOffset = Fin 0, spacing = Fin 2000, slingWLL = Fin 4000 \<rparr>"

subsection \<open>calculateAngleFactor\<close>

text \<open>\<open>Math.PI\<close> is read as the real number \<open>pi\<close>.\<close>

definition calculateAngleFactor :: "num \<Rightarrow> AngleFactorResult" where
  "calculateAngleFactor includedAngle =
     (let legAngleRadians = jmul (jdiv includedAngle (Fin 2)) (jdiv (Fin pi) (Fin 180));
          legAngleDegrees = jdiv includedAngle (Fin 2);
          af = jdiv (Fin 1) (jcos legAngleRadians);
          eff = jdiv (Fin 1) af
      in \<lparr> AngleFactorResult.angleFactor = af, legAngle = legAngleDegrees,
           efficiency = eff \<rparr>)"

subsection \<open>calculateLoadDistribution\<close>

text \<open>
  \<open>new Array(legs)\<close> throws a \<open>RangeError\<close> unless \<open>legs\<close> is an integer from \<open>0\<close> to
  \<open>2^32 - 1\<close>; otherwise it is an array of that length. The limits of the engine on
  memory and on the number of arguments of \<open>Math.max(...xs)\<close> are not modelled.
\<close>

datatype error = RangeError

fun array_length :: "num \<Rightarrow> nat option" where
  "array_length (Fin x) =
     (if x = of_int \<lfloor>x\<rfloor> \<and> 0 \<le> x \<and> x < 4294967296 then Some (nat \<lfloor>x\<rfloor>) else None)"
| "array_length x = None"

definition calculateLoadDistribution ::
  "num \<Rightarrow> num \<Rightarrow> num \<Rightarrow> num \<Rightarrow> error + LoadDistribution" where
  "calculateLoadDistribution wt lg cog sp =
     (case array_length lg of
        None \<Rightarrow> Inl RangeError
      | Some n \<Rightarrow>
          (let totalForceN = jmul wt GRAVITY;
               initial = replicate n (jdiv (Fin 1) lg);
               shares =
                 (if jeq lg (Fin 2) \<and> jgt sp (Fin 0) \<and> jgt (jabs cog) (Fin 1) then
                    (let distanceToLegA = jadd (jdiv sp (Fin 2)) cog;
                         distanceToLegB = jsub (jdiv sp (Fin 2)) cog;
                         totalDistance = jadd distanceToLegA distanceToLegB
                     in (initial[0 := jdiv distanceToLegB totalDistance])
                                [1 := jdiv distanceToLegA totalDistance])
                  else initial);
               legForcesN = map (\<lambda>share. jmul totalForceN share) shares;
               maxT = jmax_list legForcesN;
               minT = jmin_list legForcesN;
               ratio = jdiv maxT minT
           in Inr \<lparr> legLoads = shares, maxTension = maxT, minTension = minT,
                    isBalanced = jle ratio (Fin (11 / 10)), imbalanceRatio = ratio \<rparr>))"

subsection \<open>calculateSafetyFactors\<close>

definition calculateSafetyFactors :: "num \<Rightarrow> num \<Rightarrow> HitchType \<Rightarrow> SafetyAnalysis" where
  "calculateSafetyFactors maxTensionN wll ht =
     (let hitchFactor = HITCH_FACTORS ht;
          effectiveWLLkg = jmul wll hitchFactor;
          effectiveWLLN = jmul effectiveWLLkg (Fin (980665 / 100000));
          margin = jmul (jdiv (jsub effectiveWLLN maxTensionN) maxTensionN) (Fin 100);
          adequate = jge margin MINIMUM_SAFETY_MARGIN;
          minRequiredWLLN = jmul maxTensionN DESIGN_FACTOR;
          minRequired = jdiv minRequiredWLLN (Fin (980665 / 100000));
          recommended = jmul minRequired (Fin (11 / 10));
          ws = (if \<not> adequate then [InsufficientCapacity margin] else [])
             @ (if jlt margin (Fin 50) then [LowSafetyMargin] else []);
          rs = (if \<not> adequate then [UseMinimumWLL minRequired] else [])
             @ (if ht = choker then [ChokerReducesCapacity] else [])
             @ (if ht = basket then [BasketDoublesCapacity] else [])
      in \<lparr> isWLLAdequate = adequate, safetyMargin = margin,
           SafetyAnalysis.minRequiredWLL = minRequired, recommendedWLL = recommended,
           SafetyAnalysis.warnings = ws, recommendations = rs \<rparr>)"

subsection \<open>validateRiggingGeometry\<close>

definition validateRiggingGeometry :: "RiggingInputs \<Rightarrow> GeometryValidation" where
  "validateRiggingGeometry inputs =
     \<lparr> isValid = True,
       GeometryValidation.warnings =
           (if jlt (angle inputs) MIN_ANGLE then [AngleTooSmall (angle inputs)] else [])
         @ (if jgt (angle inputs) MAX_ANGLE then [AngleTooLarge (angle inputs)] else [])
         @ (if jgt (legs inputs) MAX_LEGS then [TooManyLegs (legs inputs)] else [])
         @ (if jle (weight inputs) (Fin 0) then [WeightNotPositive] else [])
         @ (if jle (slingWLL inputs) (Fin 0) then [WLLNotPositive] else [])
         @ (if jgt (angle inputs) (Fin 120) then [WideAngle] else [])
         @ (if jgt (jabs (cogOffset inputs)) (jdiv (spacing inputs) (Fin 2))
            then [CogOffsetExceedsHalfSpacing] else []) \<rparr>"

subsection \<open>calculateRiggingAnalysis\<close>

definition calculateRiggingAnalysis :: "RiggingInputs \<Rightarrow> error + RiggingResults" where
  "calculateRiggingAnalysis inputs =
     (let geometryValidation = validateRiggingGeometry inputs;
          af = calculateAngleFactor (angle inputs)
      in case calculateLoadDistribution (weight inputs) (legs inputs)
                (cogOffset inputs) (spacing inputs) of
           Inl e \<Rightarrow> Inl e
         | Inr ld \<Rightarrow>
             (let maxTensionWithAngle =
                    jmul (maxTension ld) (AngleFactorResult.angleFactor af);
                  sf = calculateSafetyFactors maxTensionWithAngle (slingWLL inputs)
                         (hitchType inputs);
                  sf' = \<lparr> isWLLAdequate = isWLLAdequate sf, safetyMargin = safetyMargin sf,
                          SafetyAnalysis.minRequiredWLL = SafetyAnalysis.minRequiredWLL sf,
                          recommendedWLL = recommendedWLL sf,
                          SafetyAnalysis.warnings =
                            SafetyAnalysis.warnings sf
                              @ GeometryValidation.warnings geometryValidation,
                          recommendations = recommendations sf \<rparr>
              in Inr \<lparr> RiggingResults.angleFactor = af, loadDistribution = ld,
                       tensionPerLeg = jdiv maxTensionWithAngle (Fin 1000),
                       forcePerLeg = jdiv maxTensionWithAngle (Fin 1000),
                       safety = sf',
                       maxTensionKN = jdiv maxTensionWithAngle (Fin 1000),
                       RiggingResults.minRequiredWLL = SafetyAnalysis.minRequiredWLL sf',
                       safetyCheck = (isWLLAdequate sf' \<and> isValid geometryValidation) \<rparr>))"

section \<open>Tax engine\<close>

subsection \<open>Types and constants\<close>

datatype Province = AB | BC | MB | NB | NL | NS | NT | NU | ON | PE | QC | SK | YT

datatype PayFrequency = weekly | biweekly | semimonthly | monthly

record CPPResult =
  cpp1 :: num
  cpp2 :: num
  pensionableEarnings :: num
  cpp2Base :: num

record EIResult =
  ei :: num
  insurableEarnings :: num

record TaxResult =
  federal :: num
  provincial :: num
  taxableIncome :: num
  annualizedIncome :: num

record StatutoryDeductions =
  cpp :: CPPResult
  ei :: EIResult
  tax :: TaxResult
  totalStatutory :: num

text \<open>\<open>TAX_CONSTANTS_2025\<close>\<close>

definition YMPE :: num where "YMPE = Fin 71300"
definition YAMPE :: num where "YAMPE = Fin 81200"
definition CPP_RATE :: num where "CPP_RATE = Fin (595 / 10000)"
definition CPP2_RATE :: num where "CPP2_RATE = Fin (4 / 100)"
definition CPP_BASIC_EXEMPTION :: num where "CPP_BASIC_EXEMPTION = Fin 3500"
definition EI_MIE :: num where "EI_MIE = Fin 65700"
definition EI_RATE :: num where "EI_RATE = Fin (164 / 10000)"

definition FEDERAL_BRACKETS :: "num list" where
  "FEDERAL_BRACKETS = [Fin 57375, Fin 114750, Fin 177882, Fin 253414]"
definition FEDERAL_RATES_JAN :: "num list" where
  "FEDERAL_RATES_JAN =
     [Fin (15 / 100), Fin (205 / 1000), Fin (26 / 100), Fin (29 / 100), Fin (33 / 100)]"
definition FEDERAL_RATES_JUL :: "num list" where
  "FEDERAL_RATES_JUL =
     [Fin (14 / 100), Fin (205 / 1000), Fin (26 / 100), Fin (29 / 100), Fin (33 / 100)]"

definition AB_BRACKETS :: "num list" where
  "AB_BRACKETS = [Fin 60000, Fin 151234, Fin 181481, Fin 241974, Fin 362961]"
definition AB_RATES_JAN :: "num list" where
  "AB_RATES_JAN =
     [Fin (10 / 100), Fin (10 / 100), Fin (12 / 100), Fin (13 / 100), Fin (14 / 100),
      Fin (15 / 100)]"
definition AB_RATES_JUL :: "num list" where
  "AB_RATES_JUL =
     [Fin (6 / 100), Fin (10 / 100), Fin (12 / 100), Fin (13 / 100), Fin (14 / 100),
      Fin (15 / 100)]"

definition FEDERAL_BPA_MAX :: num where "FEDERAL_BPA_MAX = Fin 16129"
definition FEDERAL_BPA_MIN :: num where "FEDERAL_BPA_MIN = Fin 14538"
definition FEDERAL_BPA_THRESHOLD_LOW :: num where "FEDERAL_BPA_THRESHOLD_LOW = Fin 177882"
definition FEDERAL_BPA_THRESHOLD_HIGH :: num where "FEDERAL_BPA_THRESHOLD_HIGH = Fin 253414"
definition CANADA_EMPLOYMENT_AMOUNT :: num where "CANADA_EMPLOYMENT_AMOUNT = Fin 1471"
definition AB_BPA :: num where "AB_BPA = Fin 22323"

text \<open>\<open>PAY_FREQUENCY_CONFIG[frequency].periods\<close>\<close>

fun periods :: "PayFrequency \<Rightarrow> num" where
  "periods weekly = Fin 52"
| "periods biweekly = Fin 26"
| "periods semimonthly = Fin 24"
| "periods monthly = Fin 12"

subsection \<open>calculateCPP and calculateEI\<close>

definition calculateCPP :: "num \<Rightarrow> num \<Rightarrow> num \<Rightarrow> CPPResult" where
  "calculateCPP earnings ytdPensionable periodsPerYear =
     (let cppBaseExemptionPerPay = jdiv CPP_BASIC_EXEMPTION periodsPerYear;
          pensionableThisPay = jmax (Fin 0) earnings;
          cppRoom = jmax (Fin 0) (jsub (jsub YMPE CPP_BASIC_EXEMPTION) ytdPensionable);
          cppPensionableThisPay =
            jmax (Fin 0) (jmin (jsub pensionableThisPay cppBaseExemptionPerPay) cppRoom);
          c1 = round2 (jmul cppPensionableThisPay CPP_RATE);
          pensionableAfterThisPay = jmin (jadd ytdPensionable pensionableThisPay) YAMPE;
          aboveYMPEBefore = jmax (Fin 0) (jsub (jmin ytdPensionable YAMPE) YMPE);
          aboveYMPEAfter = jmax (Fin 0) (jsub pensionableAfterThisPay YMPE);
          cpp2BaseThisPay = jmax (Fin 0) (jsub aboveYMPEAfter aboveYMPEBefore);
          cpp2Room =
            jmax (Fin 0)
              (jsub (jsub YAMPE YMPE)
                 (if jgt ytdPensionable YMPE then jsub (jmin ytdPensionable YAMPE) YMPE
                  else Fin 0));
          base2 = jmin cpp2BaseThisPay cpp2Room;
          c2 = round2 (jmul base2 CPP2_RATE)
      in \<lparr> cpp1 = c1, cpp2 = c2, pensionableEarnings = cppPensionableThisPay,
           cpp2Base = base2 \<rparr>)"

definition calculateEI :: "num \<Rightarrow> num \<Rightarrow> num \<Rightarrow> EIResult" where
  "calculateEI earnings ytdInsurable periodsPerYear =
     (let insurableThisPay = jmax (Fin 0) earnings;
          eiRoom = jmax (Fin 0) (jsub EI_MIE ytdInsurable);
          eiBase = jmin insurableThisPay eiRoom;
          premium = round2 (jmul eiBase EI_RATE)
      in \<lparr> EIResult.ei = premium, insurableEarnings = eiBase \<rparr>)"

subsection \<open>calculateProgressiveTax and calculateFederalBPA\<close>

text \<open>
  \<open>rates[i]\<close>: an index past the end of the array reads \<open>undefined\<close>, which the
  multiplication turns into \<open>NaN\<close>.
\<close>

definition number_at :: "num list \<Rightarrow> nat \<Rightarrow> num" where
  "number_at xs i = (if i < length xs then xs ! i else NaN)"

text \<open>
  The \<open>for\<close> loop over \<open>brackets = [...thresholds, Infinity]\<close>: the fourth argument is
  the part of \<open>brackets\<close> from index \<open>i\<close> on, the last two are the variables \<open>tax\<close>
  and \<open>lastThreshold\<close>.
\<close>

fun taxLoop :: "num \<Rightarrow> num list \<Rightarrow> nat \<Rightarrow> num list \<Rightarrow> num \<Rightarrow> num \<Rightarrow> num" where
  "taxLoop annualIncome rates i [] tx lastThreshold = tx"
| "taxLoop annualIncome rates i (upperThreshold # rest) tx lastThreshold =
     (let rate = number_at rates i;
          taxableInBracket =
            jmax (Fin 0) (jsub (jmin annualIncome upperThreshold) lastThreshold)
      in if jle taxableInBracket (Fin 0) then tx
         else taxLoop annualIncome rates (Suc i) rest
                (jadd tx (jmul taxableInBracket rate)) upperThreshold)"

definition calculateProgressiveTax :: "num \<Rightarrow> num list \<Rightarrow> num list \<Rightarrow> num" where
  "calculateProgressiveTax annualIncome thresholds rates =
     taxLoop annualIncome rates 0 (thresholds @ [PInf]) (Fin 0) (Fin 0)"

definition calculateFederalBPA :: "num \<Rightarrow> num" where
  "calculateFederalBPA annualIncome =
     (if jle annualIncome FEDERAL_BPA_THRESHOLD_LOW then FEDERAL_BPA_MAX
      else if jge annualIncome FEDERAL_BPA_THRESHOLD_HIGH then FEDERAL_BPA_MIN
      else
        (let phaseOutRatio =
               jdiv (jsub FEDERAL_BPA_THRESHOLD_HIGH annualIncome)
                    (jsub FEDERAL_BPA_THRESHOLD_HIGH FEDERAL_BPA_THRESHOLD_LOW)
         in jadd FEDERAL_BPA_MIN (jmul (jsub FEDERAL_BPA_MAX FEDERAL_BPA_MIN) phaseOutRatio)))"

subsection \<open>The pay date\<close>

text \<open>
  \<open>new Date(payDate + 'T00:00:00')\<close> reads a calendar date in local time, and so does the
  cutover \<open>new Date('2025-07-01T00:00:00')\<close>: the comparison of the two time values is
  the comparison of the calendar dates. The model reads a pay date of the documented
  form \<open>YYYY-MM-DD\<close> (month \<open>01\<close> to \<open>12\<close>, day \<open>01\<close> to \<open>31\<close>); any other string is an
  invalid date, whose time value is \<open>NaN\<close> and for which \<open>>=\<close> is false.
\<close>

definition digit :: "char \<Rightarrow> nat option" where
  "digit c =
     (let n = of_char c :: nat in if 48 \<le> n \<and> n \<le> 57 then Some (n - 48) else None)"

fun digits :: "char list \<Rightarrow> nat \<Rightarrow> nat option" where
  "digits [] acc = Some acc"
| "digits (c # cs) acc =
     (case digit c of None \<Rightarrow> None | Some d \<Rightarrow> digits cs (10 * acc + d))"

definition parseDate :: "string \<Rightarrow> (nat \<times> nat \<times> nat) option" where
  "parseDate s =
     (if length s = 10 \<and> s ! 4 = CHR ''-'' \<and> s ! 7 = CHR ''-'' then
        (case (digits (take 4 s) 0, digits (take 2 (drop 5 s)) 0,
               digits (take 2 (drop 8 s)) 0) of
           (Some y, Some m, Some d) \<Rightarrow>
             (if 1 \<le> m \<and> m \<le> 12 \<and> 1 \<le> d \<and> d \<le> 31 then Some (y, m, d) else None)
         | _ \<Rightarrow> None)
      else None)"

fun dateGE :: "nat \<times> nat \<times> nat \<Rightarrow> nat \<times> nat \<times> nat \<Rightarrow> bool" where
  "dateGE (y, m, d) (y', m', d') =
     (y' < y \<or> (y = y' \<and> (m' < m \<or> (m = m' \<and> d' \<le> d))))"

definition isJulyOrLater :: "string \<Rightarrow> bool" where
  "isJulyOrLater payDate =
     (case parseDate payDate of None \<Rightarrow> False | Some dt \<Rightarrow> dateGE dt (2025, 7, 1))"

subsection \<open>calculateIncomeTax and calculateStatutoryDeductions\<close>

definition calculateIncomeTax :: "num \<Rightarrow> string \<Rightarrow> Province \<Rightarrow> num \<Rightarrow> TaxResult" where
  "calculateIncomeTax income payDate province periodsPerYear =
     (let annualized = jmul income periodsPerYear;
          julyOrLater = isJulyOrLater payDate;
          federalRates = (if julyOrLater then FEDERAL_RATES_JUL else FEDERAL_RATES_JAN);
          federalCreditRate = number_at federalRates 0;
          federalBPA = calculateFederalBPA annualized;
          federalBeforeCredits =
            calculateProgressiveTax annualized FEDERAL_BRACKETS federalRates;
          federalCredits = jmul federalCreditRate (jadd federalBPA CANADA_EMPLOYMENT_AMOUNT);
          federalAnnual = jmax (Fin 0) (jsub federalBeforeCredits federalCredits);
          provincialAnnual =
            (if province = AB then
               (let albertaRates = (if julyOrLater then AB_RATES_JUL else AB_RATES_JAN);
                    albertaCreditRate = number_at albertaRates 0;
                    albertaBeforeCredits =
                      calculateProgressiveTax annualized AB_BRACKETS albertaRates;
                    albertaCredits = jmul albertaCreditRate AB_BPA
                in jmax (Fin 0) (jsub albertaBeforeCredits albertaCredits))
             else Fin 0)
      in \<lparr> federal = round2 (jdiv federalAnnual periodsPerYear),
           provincial = round2 (jdiv provincialAnnual periodsPerYear),
           taxableIncome = income, annualizedIncome = annualized \<rparr>)"

text \<open>The default \<open>rrspAtSource = 0\<close> of the last parameter is passed by the caller.\<close>

definition calculateStatutoryDeductions ::
  "num \<Rightarrow> num \<Rightarrow> num \<Rightarrow> string \<Rightarrow> Province \<Rightarrow> num \<Rightarrow> num \<Rightarrow> StatutoryDeductions" where
  "calculateStatutoryDeductions grossWage ytdPensionable ytdInsurable payDate province
      periodsPerYear rrspAtSourceAmount =
     (let cppResult = calculateCPP grossWage ytdPensionable periodsPerYear;
          eiResult = calculateEI grossWage ytdInsurable periodsPerYear;
          taxable = jmax (Fin 0) (jsub grossWage rrspAtSourceAmount);
          taxResult = calculateIncomeTax taxable payDate province periodsPerYear
      in \<lparr> cpp = cppResult, StatutoryDeductions.ei = eiResult, tax = taxResult,
           totalStatutory =
             jadd (jadd (jadd (jadd (cpp1 cppResult) (cpp2 cppResult)) (EIResult.ei eiResult))
                        (federal taxResult))
                  (provincial taxResult) \<rparr>)"

section \<open>Payroll orchestrator\<close>

subsection \<open>Types\<close>

record PayrollInputs =
  rate :: num
  straightTime :: num
  overtimeHalf :: num
  overtimeDouble :: num
  shiftPremium :: num
  travelHours :: num
  travelRate :: num
  perDiem :: num
  days :: num
  payDate :: string
  frequency :: PayFrequency
  province :: Province

record DeductionInputs =
  unionDuesPercent :: num
  rrspPercent :: num
  rrspAtSource :: bool
  otherDeductions :: num

record YTDInputs =
  pensionableEarnings :: num
  cpp1Paid :: num
  cpp2Paid :: num
  insurableEarnings :: num
  eiPaid :: num

record GrossPayBreakdown =
  straightTimePay :: num
  overtimeHalfPay :: num
  overtimeDoublePay :: num
  shiftPremiumPay :: num
  travelPay :: num
  wage :: num
  allowances :: num
  total :: num

record VoluntaryDeductions =
  union :: num
  rrsp :: num
  other :: num
  totalVoluntary :: num

record DeductionBreakdown =
  union :: num
  rrsp :: num
  other :: num
  cpp1 :: num
  cpp2 :: num
  ei :: num
  federal :: num
  provincial :: num
  total :: num

record PayrollResults =
  gross :: GrossPayBreakdown
  deductions :: DeductionBreakdown
  net :: num

record PayrollValidation =
  isValid :: bool
  errors :: "string list"
  warnings :: "string list"

text \<open>
  \<open>DEFAULT_PAYROLL_INPUTS\<close>, \<open>DEFAULT_DEDUCTION_INPUTS\<close> and \<open>DEFAULT_YTD_INPUTS\<close>. The
  default pay date is the current date, here a parameter.
\<close>

definition DEFAULT_PAYROLL_INPUTS :: "string \<Rightarrow> PayrollInputs" where
  "DEFAULT_PAYROLL_INPUTS today =
     \<lparr> rate = Fin 60, straightTime = Fin 40, overtimeHalf = Fin 0, overtimeDouble = Fin 0,
       shiftPremium = Fin 0, travelHours = Fin 0, travelRate = Fin 0, perDiem = Fin 0,
       days = Fin 5, payDate = today, frequency = weekly, province = AB \<rparr>"

definition DEFAULT_DEDUCTION_INPUTS :: DeductionInputs where
  "DEFAULT_DEDUCTION_INPUTS =
     \<lparr> unionDuesPercent = Fin 3, rrspPercent = Fin 0, rrspAtSource = True,
       otherDeductions = Fin 0 \<rparr>"

definition DEFAULT_YTD_INPUTS :: YTDInputs where
  "DEFAULT_YTD_INPUTS =
     \<lparr> YTDInputs.pensionableEarnings = Fin 0, cpp1Paid = Fin 0, cpp2Paid = Fin 0,
       YTDInputs.insurableEarnings = Fin 0, eiPaid = Fin 0 \<rparr>"

subsection \<open>calculateGrossPay\<close>

definition calculateGrossPay :: "PayrollInputs \<Rightarrow> GrossPayBreakdown" where
  "calculateGrossPay inputs =
     (let stPay = round2 (jmul (straightTime inputs) (jadd (rate inputs) (shiftPremium inputs)));
          ohPay = round2 (jmul (overtimeHalf inputs)
                    (jadd (jmul (rate inputs) (Fin (15 / 10))) (shiftPremium inputs)));
          odPay = round2 (jmul (overtimeDouble inputs)
                    (jadd (jmul (rate inputs) (Fin 2)) (shiftPremium inputs)));
          spPay = round2 (jmul
                    (jadd (jadd (straightTime inputs) (overtimeHalf inputs))
                          (overtimeDouble inputs))
                    (shiftPremium inputs));
          trPay = round2 (jmul (travelHours inputs) (travelRate inputs));
          allow = round2 (jmul (perDiem inputs) (days inputs));
          wg = round2 (jadd (jadd (jadd stPay ohPay) odPay) trPay);
          tot = round2 (jadd wg allow)
      in \<lparr> straightTimePay = stPay, overtimeHalfPay = ohPay, overtimeDoublePay = odPay,
           shiftPremiumPay = spPay, travelPay = trPay, wage = wg, allowances = allow,
           GrossPayBreakdown.total = tot \<rparr>)"

subsection \<open>calculateVoluntaryDeductions and calculateDeductions\<close>

definition calculateVoluntaryDeductions :: "num \<Rightarrow> DeductionInputs \<Rightarrow> VoluntaryDeductions" where
  "calculateVoluntaryDeductions grossWage deductionInputs =
     (let un = round2 (jdiv (jmul grossWage (unionDuesPercent deductionInputs)) (Fin 100));
          rr = round2 (jdiv (jmul grossWage (rrspPercent deductionInputs)) (Fin 100));
          ot = round2 (otherDeductions deductionInputs)
      in \<lparr> VoluntaryDeductions.union = un, VoluntaryDeductions.rrsp = rr,
           VoluntaryDeductions.other = ot,
           totalVoluntary = round2 (jadd (jadd un rr) ot) \<rparr>)"

text \<open>The default \<open>rrspAtSource = true\<close> of the last parameter is passed by the caller.\<close>

definition calculateDeductions ::
  "num \<Rightarrow> DeductionInputs \<Rightarrow> YTDInputs \<Rightarrow> string \<Rightarrow> Province \<Rightarrow> PayFrequency \<Rightarrow> bool
     \<Rightarrow> DeductionBreakdown" where
  "calculateDeductions grossWage deductionInputs ytdInputs pDate prov freq atSource =
     (let periodsPerYear = periods freq;
          voluntary = calculateVoluntaryDeductions grossWage deductionInputs;
          rrspAtSourceAmount = (if atSource then VoluntaryDeductions.rrsp voluntary else Fin 0);
          statutory =
            calculateStatutoryDeductions grossWage (YTDInputs.pensionableEarnings ytdInputs)
              (YTDInputs.insurableEarnings ytdInputs) pDate prov periodsPerYear rrspAtSourceAmount;
          tot = round2
            (jadd (jadd (jadd (jadd (jadd (jadd (jadd
               (VoluntaryDeductions.union voluntary)
               (VoluntaryDeductions.rrsp voluntary))
               (VoluntaryDeductions.other voluntary))
               (CPPResult.cpp1 (cpp statutory)))
               (CPPResult.cpp2 (cpp statutory)))
               (EIResult.ei (StatutoryDeductions.ei statutory)))
               (TaxResult.federal (tax statutory)))
               (TaxResult.provincial (tax statutory)))
      in \<lparr> DeductionBreakdown.union = VoluntaryDeductions.union voluntary,
           DeductionBreakdown.rrsp = VoluntaryDeductions.rrsp voluntary,
           DeductionBreakdown.other = VoluntaryDeductions.other voluntary,
           DeductionBreakdown.cpp1 = CPPResult.cpp1 (cpp statutory),
           DeductionBreakdown.cpp2 = CPPResult.cpp2 (cpp statutory),
           DeductionBreakdown.ei = EIResult.ei (StatutoryDeductions.ei statutory),
           DeductionBreakdown.federal = TaxResult.federal (tax statutory),
           DeductionBreakdown.provincial = TaxResult.provincial (tax statutory),
           DeductionBreakdown.total = tot \<rparr>)"

subsection \<open>calculateNetPay and calculatePayroll\<close>

definition calculateNetPay :: "num \<Rightarrow> num \<Rightarrow> num" where
  "calculateNetPay grossTotal totalDeductions = round2 (jsub grossTotal totalDeductions)"

definition calculatePayroll ::
  "PayrollInputs \<Rightarrow> DeductionInputs \<Rightarrow> YTDInputs \<Rightarrow> PayrollResults" where
  "calculatePayroll payrollInputs deductionInputs ytdInputs =
     (let g = calculateGrossPay payrollInputs;
          d = calculateDeductions (wage g) deductionInputs ytdInputs (payDate payrollInputs)
                (province payrollInputs) (frequency payrollInputs)
                (rrspAtSource deductionInputs);
          n = calculateNetPay (GrossPayBreakdown.total g) (DeductionBreakdown.total d)
      in \<lparr> gross = g, deductions = d, net = n \<rparr>)"

subsection \<open>validatePayrollInputs\<close>

definition validatePayrollInputs ::
  "PayrollInputs \<Rightarrow> DeductionInputs \<Rightarrow> YTDInputs \<Rightarrow> PayrollValidation" where
  "validatePayrollInputs payrollInputs deductionInputs ytdInputs =
     (let errs =
              (if jle (rate payrollInputs) (Fin 0)
               then [''Base rate must be greater than 0''] else [])
            @ (if jlt (straightTime payrollInputs) (Fin 0)
               then [''Straight time hours cannot be negative''] else [])
            @ (if jlt (overtimeHalf payrollInputs) (Fin 0)
               then [''Overtime hours cannot be negative''] else [])
            @ (if jlt (overtimeDouble payrollInputs) (Fin 0)
               then [''Double-time hours cannot be negative''] else [])
            @ (if jlt (unionDuesPercent deductionInputs) (Fin 0)
                  \<or> jgt (unionDuesPercent deductionInputs) (Fin 100)
               then [''Union dues percentage must be between 0 and 100''] else [])
            @ (if jlt (rrspPercent deductionInputs) (Fin 0)
                  \<or> jgt (rrspPercent deductionInputs) (Fin 100)
               then [''RRSP percentage must be between 0 and 100''] else [])
            @ (if jlt (YTDInputs.pensionableEarnings ytdInputs) (Fin 0)
               then [''YTD pensionable earnings cannot be negative''] else [])
            @ (if jlt (YTDInputs.insurableEarnings ytdInputs) (Fin 0)
               then [''YTD insurable earnings cannot be negative''] else []);
          totalHours =
            jadd (jadd (straightTime payrollInputs) (overtimeHalf payrollInputs))
                 (overtimeDouble payrollInputs);
          warns =
              (if jgt totalHours (Fin 84)
               then [''Total hours exceed 84 per week - verify compliance with labour standards'']
               else [])
            @ (if jgt (rrspPercent deductionInputs) (Fin 18)
               then [''RRSP contribution exceeds typical 18% limit''] else [])
      in \<lparr> PayrollValidation.isValid = (length errs = 0), errors = errs,
           PayrollValidation.warnings = warns \<rparr>)"

section \<open>Properties\<close>


text \<open>
  The numeric fields that \<open>validatePayrollInputs\<close> compares are numbers (not \<open>NaN\<close>,
  on which every comparison is false).
\<close>

definition checkedFieldsAreNumbers ::
  "PayrollInputs \<Rightarrow> DeductionInputs \<Rightarrow> YTDInputs \<Rightarrow> bool" where
  "checkedFieldsAreNumbers p d y =
     (rate p \<noteq> NaN \<and> straightTime p \<noteq> NaN \<and> overtimeHalf p \<noteq> NaN
      \<and> overtimeDouble p \<noteq> NaN \<and> unionDuesPercent d \<noteq> NaN \<and> rrspPercent d \<noteq> NaN
      \<and> YTDInputs.pensionableEarnings y \<noteq> NaN \<and> YTDInputs.insurableEarnings y \<noteq> NaN)"


subsection \<open>Arithmetic on finite numbers\<close>

lemma jmax_Fin [simp]: "jmax (Fin a) (Fin b) = Fin (max a b)"
  by (simp add: jmax_def max_def)

lemma jmin_Fin [simp]: "jmin (Fin a) (Fin b) = Fin (min a b)"
  by (simp add: jmin_def min_def)

lemma jsub_Fin [simp]: "jsub (Fin a) (Fin b) = Fin (a - b)"
  by (simp add: jsub_def)

lemma round2_Fin: "round2 (Fin x) = Fin (of_int \<lfloor>x * 100 + 1 / 2\<rfloor> / 100)"
  by (simp add: round2_def)

lemma round2_nonneg: "0 \<le> x \<Longrightarrow> jle (Fin 0) (round2 (Fin x))"
  by (simp add: round2_Fin)





lemma not_jle_zero: "x \<noteq> NaN \<Longrightarrow> (\<not> jle x (Fin c)) = jgt x (Fin c)"
  by (cases x) (auto simp: jgt_def)

lemma not_jlt: "x \<noteq> NaN \<Longrightarrow> (\<not> jlt x (Fin c)) = jge x (Fin c)"
  by (cases x) (auto simp: jge_def)

lemma not_jgt: "x \<noteq> NaN \<Longrightarrow> (\<not> jgt x (Fin c)) = jle x (Fin c)"
  by (cases x) (auto simp: jgt_def)









subsection \<open>Rigging engine\<close>

text \<open>
  Claim C2. For every rigging input, \<open>validateRiggingGeometry\<close> returns
  \<open>isValid = true\<close>: it only collects warnings. \<open>calculateRiggingAnalysis\<close> returns a
  result whenever \<open>legs\<close> is a possible array length, and the \<open>safetyCheck\<close> of every
  result it returns equals \<open>safety.isWLLAdequate\<close>.
\<close>

theorem geometry_always_valid:
  "GeometryValidation.isValid (validateRiggingGeometry inputs)
   \<and> (array_length (legs inputs) \<noteq> None \<longrightarrow> (\<exists>r. calculateRiggingAnalysis inputs = Inr r))
   \<and> (\<forall>r. calculateRiggingAnalysis inputs = Inr r
          \<longrightarrow> safetyCheck r = isWLLAdequate (safety r))"
  by (auto simp: validateRiggingGeometry_def calculateRiggingAnalysis_def
        calculateLoadDistribution_def Let_def
      split: sum.splits option.splits)

theorem geometry_always_valid_witness:
  "array_length (legs DEFAULT_RIGGING_INPUTS) \<noteq> None
   \<and> (\<exists>r. calculateRiggingAnalysis DEFAULT_RIGGING_INPUTS = Inr r
        \<and> safetyCheck r = isWLLAdequate (safety r))"
proof -
  have len: "array_length (legs DEFAULT_RIGGING_INPUTS) \<noteq> None"
    by (simp add: DEFAULT_RIGGING_INPUTS_def)
  show ?thesis
    using len geometry_always_valid [of DEFAULT_RIGGING_INPUTS] by blast
qed


lemma zero_tension_zero_wll_value:
  "safetyMargin (calculateSafetyFactors (Fin 0) (Fin 0) vertical) = NaN
   \<and> \<not> isWLLAdequate (calculateSafetyFactors (Fin 0) (Fin 0) vertical)"
  by (simp add: calculateSafetyFactors_def Let_def signed_inf_def jge_def
      MINIMUM_SAFETY_MARGIN_def)



text \<open>
  Claim C4, as stated: for every included angle the angle factor is at least \<open>1\<close>. It
  fails at \<open>360\<close> degrees: the leg angle is \<open>pi\<close> radians, its cosine \<open>-1\<close>, and the
  angle factor \<open>-1\<close>.
\<close>

theorem angle_factor_360_counterexample:
  "\<not> jge (AngleFactorResult.angleFactor (calculateAngleFactor (Fin 360))) (Fin 1)"
  by (simp add: calculateAngleFactor_def Let_def jge_def)

lemma angle_factor_360_value:
  "AngleFactorResult.angleFactor (calculateAngleFactor (Fin 360)) = Fin (- 1)"
  by (simp add: calculateAngleFactor_def Let_def)

text \<open>
  Claim C4, amended: for every included angle strictly between \<open>-180\<close> and \<open>180\<close>
  degrees the angle factor is at least \<open>1\<close>, while the reported leg angle is half the
  included angle and keeps its sign.
\<close>

theorem angle_factor_ge_one:
  assumes "- 180 < a" and "a < 180"
  shows "jge (AngleFactorResult.angleFactor (calculateAngleFactor (Fin a))) (Fin 1)
         \<and> legAngle (calculateAngleFactor (Fin a)) = Fin (a / 2)"
proof -
  let ?x = "a / 2 * (pi / 180)"
  have "- 180 * pi < a * pi" "a * pi < 180 * pi"
    using assms pi_gt_zero by (simp_all only: mult_strict_right_mono)
  then have "- (pi / 2) < ?x" "?x < pi / 2" by simp_all
  then have pos: "0 < cos ?x" by (rule cos_gt_zero_pi)
  have "cos ?x \<le> 1" by simp
  then have "1 \<le> 1 / cos ?x" using pos by (simp add: field_simps)
  then show ?thesis using pos
    by (simp add: calculateAngleFactor_def Let_def jge_def)
qed

theorem angle_factor_ge_one_witness:
  "(- 180 :: real) < - 60 \<and> (- 60 :: real) < 180
   \<and> jge (AngleFactorResult.angleFactor (calculateAngleFactor (Fin (- 60)))) (Fin 1)
   \<and> legAngle (calculateAngleFactor (Fin (- 60))) = Fin (- 60 / 2)"
  using angle_factor_ge_one [of "- 60"] by simp








subsection \<open>Tax engine\<close>

lemma cpp1_Fin:
  "p \<noteq> 0 \<Longrightarrow> CPPResult.cpp1 (calculateCPP (Fin e) (Fin y) (Fin p)) =
    round2 (Fin (max 0 (min (max 0 e - 3500 / p) (max 0 (67800 - y))) * (595 / 10000)))"
  by (simp add: calculateCPP_def Let_def YMPE_def CPP_BASIC_EXEMPTION_def CPP_RATE_def)

lemma cpp2_Fin:
  "CPPResult.cpp2 (calculateCPP (Fin e) (Fin y) (Fin p)) =
    round2 (Fin (min (max 0 (max 0 (min (y + max 0 e) 81200 - 71300)
                              - max 0 (min y 81200 - 71300)))
                     (max 0 (9900 - (if 71300 < y then min y 81200 - 71300 else 0)))
                 * (4 / 100)))"
  by (cases "p = 0")
     (simp_all add: calculateCPP_def Let_def YMPE_def YAMPE_def CPP_BASIC_EXEMPTION_def
        CPP2_RATE_def jgt_def signed_inf_def)

lemma ei_Fin:
  "EIResult.ei (calculateEI (Fin e) (Fin y) p) =
    round2 (Fin (min (max 0 e) (max 0 (65700 - y)) * (164 / 10000)))"
  by (simp add: calculateEI_def Let_def EI_MIE_def EI_RATE_def)

lemma room_irrelevant:
  fixes x y e :: real
  assumes "0 < x" and "y < 0" and "e - x \<le> 67800"
  shows "min (max 0 e - x) (max 0 (67800 - y)) = min (max 0 e - x) (max 0 67800)"
  using assms by (auto simp: min_def max_def)

text \<open>
  Claim C1, as stated: a negative year-to-date value gives the same contributions as a
  year-to-date value of \<open>0\<close>. It fails for earnings of \<open>100000\<close> in a monthly period with
  \<open>ytdPensionable = -50000\<close>: \<open>cpp1\<close> is \<open>5932.65\<close>, against \<open>4034.10\<close> for a
  year-to-date value of \<open>0\<close>, because the negative value enlarges the remaining room.
\<close>

theorem negative_ytd_counterexample:
  "CPPResult.cpp1 (calculateCPP (Fin 100000) (Fin (- 50000)) (Fin 12))
     \<noteq> CPPResult.cpp1 (calculateCPP (Fin 100000) (Fin 0) (Fin 12))"
  by code_simp

lemma negative_ytd_values:
  "CPPResult.cpp1 (calculateCPP (Fin 100000) (Fin (- 50000)) (Fin 12)) = Fin (593265 / 100)
   \<and> CPPResult.cpp1 (calculateCPP (Fin 100000) (Fin 0) (Fin 12)) = Fin (403410 / 100)
   \<and> CPPResult.cpp2 (calculateCPP (Fin 100000) (Fin (- 50000)) (Fin 12)) = Fin 0
   \<and> CPPResult.cpp2 (calculateCPP (Fin 100000) (Fin 0) (Fin 12)) = Fin 396
   \<and> EIResult.ei (calculateEI (Fin 70000) (Fin (- 10000)) (Fin 12)) = Fin 1148
   \<and> EIResult.ei (calculateEI (Fin 70000) (Fin 0) (Fin 12)) = Fin (107748 / 100)"
  by code_simp

text \<open>
  Claim C1, amended: for a negative year-to-date value and \<open>periodsPerYear > 0\<close>, the
  contributions are never negative, and each equals its value for a year-to-date value of
  \<open>0\<close> as long as this period's earnings stay within the annual limit: \<open>cpp1\<close> when the
  earnings less the per-period exemption are at most \<open>67800\<close>, \<open>cpp2\<close> when the earnings
  are at most \<open>71300\<close>, \<open>ei\<close> when the earnings are at most \<open>65700\<close>.
\<close>

theorem negative_ytd_as_zero:
  assumes "y < 0" and "0 < p"
  shows "(e - 3500 / p \<le> 67800 \<longrightarrow>
            CPPResult.cpp1 (calculateCPP (Fin e) (Fin y) (Fin p))
              = CPPResult.cpp1 (calculateCPP (Fin e) (Fin 0) (Fin p)))
       \<and> (e \<le> 71300 \<longrightarrow>
            CPPResult.cpp2 (calculateCPP (Fin e) (Fin y) (Fin p))
              = CPPResult.cpp2 (calculateCPP (Fin e) (Fin 0) (Fin p)))
       \<and> (e \<le> 65700 \<longrightarrow>
            EIResult.ei (calculateEI (Fin e) (Fin y) (Fin p))
              = EIResult.ei (calculateEI (Fin e) (Fin 0) (Fin p)))
       \<and> jle (Fin 0) (CPPResult.cpp1 (calculateCPP (Fin e) (Fin y) (Fin p)))
       \<and> jle (Fin 0) (CPPResult.cpp2 (calculateCPP (Fin e) (Fin y) (Fin p)))
       \<and> jle (Fin 0) (EIResult.ei (calculateEI (Fin e) (Fin y) (Fin p)))"
proof -
  have p: "p \<noteq> 0" using assms(2) by simp
  have ex: "0 < 3500 / p" using assms(2) by simp
  have a: "e - 3500 / p \<le> 67800 \<Longrightarrow>
      min (max 0 e - 3500 / p) (max 0 (67800 - y))
        = min (max 0 e - 3500 / p) (max 0 (67800 - 0))"
    using assms(1) room_irrelevant [OF ex] by simp
  have b: "e \<le> 71300 \<Longrightarrow>
      max 0 (min (y + max 0 e) 81200 - 71300) = 0
      \<and> max 0 (min (0 + max 0 e) 81200 - 71300) = 0"
    using assms(1) by (simp add: min_def max_def)
  have c: "e \<le> 65700 \<Longrightarrow>
      min (max 0 e) (max 0 (65700 - y)) = min (max 0 e) (max 0 (65700 - 0))"
    using assms(1) by (simp add: min_def max_def)
  have n1: "jle (Fin 0) (CPPResult.cpp1 (calculateCPP (Fin e) (Fin y) (Fin p)))"
    unfolding cpp1_Fin [OF p] by (rule round2_nonneg) simp
  have n2: "jle (Fin 0) (CPPResult.cpp2 (calculateCPP (Fin e) (Fin y) (Fin p)))"
    unfolding cpp2_Fin by (rule round2_nonneg) (simp add: min_def max_def)
  have n3: "jle (Fin 0) (EIResult.ei (calculateEI (Fin e) (Fin y) (Fin p)))"
    unfolding ei_Fin by (rule round2_nonneg) (simp add: min_def max_def)
  have e1: "e - 3500 / p \<le> 67800 \<Longrightarrow>
      CPPResult.cpp1 (calculateCPP (Fin e) (Fin y) (Fin p))
        = CPPResult.cpp1 (calculateCPP (Fin e) (Fin 0) (Fin p))"
    unfolding cpp1_Fin [OF p] using a by simp
  have e2: "e \<le> 71300 \<Longrightarrow>
      CPPResult.cpp2 (calculateCPP (Fin e) (Fin y) (Fin p))
        = CPPResult.cpp2 (calculateCPP (Fin e) (Fin 0) (Fin p))"
    unfolding cpp2_Fin using b assms(1) by simp
  have e3: "e \<le> 65700 \<Longrightarrow>
      EIResult.ei (calculateEI (Fin e) (Fin y) (Fin p))
        = EIResult.ei (calculateEI (Fin e) (Fin 0) (Fin p))"
    unfolding ei_Fin using c by simp
  show ?thesis using n1 n2 n3 e1 e2 e3 by blast
qed

theorem negative_ytd_as_zero_witness:
  "(- 1000 :: real) < 0 \<and> (0::real) < 52
   \<and> (5000::real) - 3500 / 52 \<le> 67800 \<and> (5000::real) \<le> 71300 \<and> (5000::real) \<le> 65700
   \<and> CPPResult.cpp1 (calculateCPP (Fin 5000) (Fin (- 1000)) (Fin 52))
        = CPPResult.cpp1 (calculateCPP (Fin 5000) (Fin 0) (Fin 52))
   \<and> CPPResult.cpp2 (calculateCPP (Fin 5000) (Fin (- 1000)) (Fin 52))
        = CPPResult.cpp2 (calculateCPP (Fin 5000) (Fin 0) (Fin 52))
   \<and> EIResult.ei (calculateEI (Fin 5000) (Fin (- 1000)) (Fin 52))
        = EIResult.ei (calculateEI (Fin 5000) (Fin 0) (Fin 52))
   \<and> jle (Fin 0) (CPPResult.cpp1 (calculateCPP (Fin 5000) (Fin (- 1000)) (Fin 52)))
   \<and> jle (Fin 0) (CPPResult.cpp2 (calculateCPP (Fin 5000) (Fin (- 1000)) (Fin 52)))
   \<and> jle (Fin 0) (EIResult.ei (calculateEI (Fin 5000) (Fin (- 1000)) (Fin 52)))"
proof -
  have ytd: "(- 1000 :: real) < 0" and per: "(0::real) < 52" by simp_all
  have within: "(5000::real) - 3500 / 52 \<le> 67800" "(5000::real) \<le> 71300"
    "(5000::real) \<le> 65700" by simp_all
  show ?thesis
    using ytd per within negative_ytd_as_zero [OF ytd per, of 5000] by blast
qed

text \<open>
  Claim C5. \<open>calculateIncomeTax(3000, '2025-07-15', 'AB', 52)\<close> returns strictly less
  federal tax and strictly less provincial tax than
  \<open>calculateIncomeTax(3000, '2025-01-15', 'AB', 52)\<close>.
\<close>

theorem july_tax_less_than_january:
  "jlt (TaxResult.federal (calculateIncomeTax (Fin 3000) ''2025-07-15'' AB (Fin 52)))
       (TaxResult.federal (calculateIncomeTax (Fin 3000) ''2025-01-15'' AB (Fin 52)))
   \<and> jlt (TaxResult.provincial (calculateIncomeTax (Fin 3000) ''2025-07-15'' AB (Fin 52)))
         (TaxResult.provincial (calculateIncomeTax (Fin 3000) ''2025-01-15'' AB (Fin 52)))"
  by code_simp

lemma income_tax_january:
  "calculateIncomeTax (Fin 3000) ''2025-01-15'' AB (Fin 52) =
     \<lparr> TaxResult.federal = Fin (54718 / 100), TaxResult.provincial = Fin (25890 / 100),
       taxableIncome = Fin 3000, annualizedIncome = Fin 156000 \<rparr>"
  by code_simp

lemma income_tax_july:
  "calculateIncomeTax (Fin 3000) ''2025-07-15'' AB (Fin 52) =
     \<lparr> TaxResult.federal = Fin (53953 / 100), TaxResult.provincial = Fin (22992 / 100),
       taxableIncome = Fin 3000, annualizedIncome = Fin 156000 \<rparr>"
  by code_simp

text \<open>
  Claim C6. For every amount of pensionable earnings and every \<open>periodsPerYear > 0\<close>, a
  year-to-date value of at least \<open>YMPE - exemption = 67800\<close> makes \<open>calculateCPP\<close> return
  \<open>cpp1 = 0\<close>.
\<close>

theorem cpp1_zero_at_ceiling:
  assumes "0 < p" and "67800 \<le> y"
  shows "CPPResult.cpp1 (calculateCPP (Fin e) (Fin y) (Fin p)) = Fin 0"
proof -
  have room: "max 0 (67800 - y) = 0" using assms(2) by simp
  have p: "p \<noteq> 0" using assms(1) by simp
  have "max 0 (min (max 0 e - 3500 / p) 0) = (0::real)" by simp
  then show ?thesis unfolding cpp1_Fin [OF p] room by (simp add: round2_Fin)
qed

theorem cpp1_zero_at_ceiling_witness:
  "(0::real) < 52 \<and> (67800::real) \<le> 67800
   \<and> CPPResult.cpp1 (calculateCPP (Fin 5000) (Fin 67800) (Fin 52)) = Fin 0"
  using cpp1_zero_at_ceiling [of 52 67800 5000] by simp

subsection \<open>Payroll orchestrator\<close>

lemma if_single_append_Nil: "((if c then [m] else []) @ xs = []) = (\<not> c \<and> xs = [])"
  by simp

lemma if_single_Nil: "((if c then [m] else []) = []) = (\<not> c)"
  by simp

lemma isValid_errors:
  "PayrollValidation.isValid (validatePayrollInputs p d y)
     = (errors (validatePayrollInputs p d y) = [])"
  by (simp only: validatePayrollInputs_def Let_def PayrollValidation.simps length_0_conv)

lemma errors_Nil:
  "(errors (validatePayrollInputs p d y) = []) =
     (\<not> jle (rate p) (Fin 0) \<and> \<not> jlt (straightTime p) (Fin 0)
      \<and> \<not> jlt (overtimeHalf p) (Fin 0) \<and> \<not> jlt (overtimeDouble p) (Fin 0)
      \<and> \<not> (jlt (unionDuesPercent d) (Fin 0) \<or> jgt (unionDuesPercent d) (Fin 100))
      \<and> \<not> (jlt (rrspPercent d) (Fin 0) \<or> jgt (rrspPercent d) (Fin 100))
      \<and> \<not> jlt (YTDInputs.pensionableEarnings y) (Fin 0)
      \<and> \<not> jlt (YTDInputs.insurableEarnings y) (Fin 0))"
  by (simp only: validatePayrollInputs_def Let_def PayrollValidation.simps
        if_single_append_Nil if_single_Nil)

text \<open>
  Claim C8, as stated: \<open>isValid\<close> is true if and only if the rate is positive, every
  hours field and every year-to-date accumulator is non-negative and the percentages are
  in range. It fails for negative travel hours and a negative \<open>eiPaid\<close>, which are not
  checked: the inputs are reported valid.
\<close>

theorem unchecked_fields_counterexample:
  "PayrollValidation.isValid
     (validatePayrollInputs
        ((DEFAULT_PAYROLL_INPUTS ''2025-01-15'') \<lparr> travelHours := Fin (- 5) \<rparr>)
        DEFAULT_DEDUCTION_INPUTS (DEFAULT_YTD_INPUTS \<lparr> eiPaid := Fin (- 1) \<rparr>))
   \<and> jlt (travelHours ((DEFAULT_PAYROLL_INPUTS ''2025-01-15'') \<lparr> travelHours := Fin (- 5) \<rparr>))
         (Fin 0)
   \<and> jlt (eiPaid (DEFAULT_YTD_INPUTS \<lparr> eiPaid := Fin (- 1) \<rparr>)) (Fin 0)"
  by (simp add: validatePayrollInputs_def DEFAULT_PAYROLL_INPUTS_def
      DEFAULT_DEDUCTION_INPUTS_def DEFAULT_YTD_INPUTS_def Let_def jgt_def)

text \<open>Warnings do not make the inputs invalid: 90 hours and an RRSP rate of 25 percent.\<close>

lemma warnings_keep_valid:
  "PayrollValidation.isValid
     (validatePayrollInputs
        ((DEFAULT_PAYROLL_INPUTS ''2025-01-15'')
           \<lparr> straightTime := Fin 60, overtimeHalf := Fin 30 \<rparr>)
        (DEFAULT_DEDUCTION_INPUTS \<lparr> rrspPercent := Fin 25 \<rparr>) DEFAULT_YTD_INPUTS)
   \<and> length (PayrollValidation.warnings
       (validatePayrollInputs
          ((DEFAULT_PAYROLL_INPUTS ''2025-01-15'')
             \<lparr> straightTime := Fin 60, overtimeHalf := Fin 30 \<rparr>)
          (DEFAULT_DEDUCTION_INPUTS \<lparr> rrspPercent := Fin 25 \<rparr>) DEFAULT_YTD_INPUTS)) = 2"
  by (simp add: validatePayrollInputs_def DEFAULT_PAYROLL_INPUTS_def
      DEFAULT_DEDUCTION_INPUTS_def DEFAULT_YTD_INPUTS_def Let_def jgt_def)

text \<open>
  Claim C8, amended: when the compared fields are numbers, \<open>validatePayrollInputs\<close>
  returns \<open>isValid = true\<close> if and only if \<open>rate > 0\<close>, the straight-time, overtime
  and double-time hours are \<open>\<ge> 0\<close>, the union-dues and RRSP percentages lie in
  \<open>[0, 100]\<close>, and the year-to-date pensionable and insurable earnings are \<open>\<ge> 0\<close>.
  \<open>isValid\<close> says that the list of errors is empty; the warnings play no part in it,
  and nothing is thrown.
\<close>

theorem isValid_iff_checks:
  assumes "checkedFieldsAreNumbers p d y"
  shows "PayrollValidation.isValid (validatePayrollInputs p d y) =
     (jgt (rate p) (Fin 0) \<and> jge (straightTime p) (Fin 0) \<and> jge (overtimeHalf p) (Fin 0)
      \<and> jge (overtimeDouble p) (Fin 0)
      \<and> jge (unionDuesPercent d) (Fin 0) \<and> jle (unionDuesPercent d) (Fin 100)
      \<and> jge (rrspPercent d) (Fin 0) \<and> jle (rrspPercent d) (Fin 100)
      \<and> jge (YTDInputs.pensionableEarnings y) (Fin 0)
      \<and> jge (YTDInputs.insurableEarnings y) (Fin 0))
    \<and> PayrollValidation.isValid (validatePayrollInputs p d y)
        = (errors (validatePayrollInputs p d y) = [])"
proof -
  have n: "rate p \<noteq> NaN" "straightTime p \<noteq> NaN" "overtimeHalf p \<noteq> NaN"
    "overtimeDouble p \<noteq> NaN" "unionDuesPercent d \<noteq> NaN" "rrspPercent d \<noteq> NaN"
    "YTDInputs.pensionableEarnings y \<noteq> NaN" "YTDInputs.insurableEarnings y \<noteq> NaN"
    using assms unfolding checkedFieldsAreNumbers_def by blast+
  show ?thesis
    unfolding isValid_errors errors_Nil
    by (simp only: n not_jle_zero not_jlt not_jgt simp_thms de_Morgan_disj not_False_eq_True conj_assoc)
qed

theorem isValid_iff_checks_witness:
  "checkedFieldsAreNumbers (DEFAULT_PAYROLL_INPUTS ''2025-01-15'') DEFAULT_DEDUCTION_INPUTS
     DEFAULT_YTD_INPUTS
   \<and> PayrollValidation.isValid
       (validatePayrollInputs (DEFAULT_PAYROLL_INPUTS ''2025-01-15'') DEFAULT_DEDUCTION_INPUTS
          DEFAULT_YTD_INPUTS)"
proof -
  have h: "checkedFieldsAreNumbers (DEFAULT_PAYROLL_INPUTS ''2025-01-15'')
      DEFAULT_DEDUCTION_INPUTS DEFAULT_YTD_INPUTS"
    by (simp add: checkedFieldsAreNumbers_def DEFAULT_PAYROLL_INPUTS_def
        DEFAULT_DEDUCTION_INPUTS_def DEFAULT_YTD_INPUTS_def)
  show ?thesis using h isValid_iff_checks [OF h]
    by (simp add: DEFAULT_PAYROLL_INPUTS_def DEFAULT_DEDUCTION_INPUTS_def
        DEFAULT_YTD_INPUTS_def jge_def jgt_def)
qed













lemma default_payroll_value:
  "wage (gross (calculatePayroll (DEFAULT_PAYROLL_INPUTS ''2025-01-15'')
      DEFAULT_DEDUCTION_INPUTS DEFAULT_YTD_INPUTS)) = Fin 2400
   \<and> net (calculatePayroll (DEFAULT_PAYROLL_INPUTS ''2025-01-15'')
      DEFAULT_DEDUCTION_INPUTS DEFAULT_YTD_INPUTS) = Fin (156159 / 100)"
  by code_simp

end
